theory Spec2Isabelle
  imports Complex_Main "HOL-Library.Char_ord" "HOL-Library.List_Lexorder"
    "HOL-Library.Product_Lexorder"
begin

section \<open>Exceptions and the tracer\<close>

text \<open>
  The profiler of \<^verbatim>\<open>src/profiler.py\<close> has two halves: the wrappers that
  \<^verbatim>\<open>MyLineProfiler.__call__\<close> puts around a callable, and the report renderer
  \<^verbatim>\<open>show_text\<close> / \<^verbatim>\<open>show_func\<close>. Every exception the code can raise is a value
  of \<open>pyexc\<close>; a computation that may raise returns \<open>pyexc + 'v\<close>, with \<open>Inl\<close> the
  exception. The semantics is that of Python 3.7 and later (the source uses f-strings, and
  from 3.7 on a \<^verbatim>\<open>StopIteration\<close> that escapes a generator body is turned into a
  \<^verbatim>\<open>RuntimeError\<close>).
\<close>

datatype pyexc =
    StopIteration
  | RuntimeError
  | TypeError
  | NameError
  | ValueError
  | ZeroDivisionError
  | TokenError
  | UserError string

text \<open>
  The tracer is the base class \<^verbatim>\<open>line_profiler.LineProfiler\<close>, an external collaborator.
  Only its context-manager protocol matters to the wrappers: \<^verbatim>\<open>__enter__\<close> calls
  \<^verbatim>\<open>enable_by_count\<close> (the counter goes up), \<^verbatim>\<open>__exit__\<close> calls
  \<^verbatim>\<open>disable_by_count\<close> (the counter goes down when it is positive) and returns nothing,
  so it never swallows an exception. \<open>events\<close> is a ghost log of the brackets opened and
  closed, in order.
\<close>

datatype tracer_event = Activate | Deactivate

record tracer =
  enable_count :: nat
  events :: "tracer_event list"

definition tracer_enter :: "tracer \<Rightarrow> tracer" where
  "tracer_enter tr = tr\<lparr>enable_count := enable_count tr + 1, events := events tr @ [Activate]\<rparr>"

definition tracer_exit :: "tracer \<Rightarrow> tracer" where
  "tracer_exit tr =
     tr\<lparr>enable_count := (if 0 < enable_count tr then enable_count tr - 1 else enable_count tr),
        events := events tr @ [Deactivate]\<rparr>"

text \<open>
  A call of a Python callable with the arguments \<open>'a\<close>: it returns or raises, and it may
  itself open and close brackets (a profiled function calling another profiled function),
  so the tracer is passed through it.
\<close>

type_synonym ('a, 'v) callable = "'a \<Rightarrow> tracer \<Rightarrow> (pyexc + 'v) \<times> tracer"

text \<open>
  \<^verbatim>\<open>with self: result = <body>\<close> followed by \<^verbatim>\<open>return result\<close>: the bracket is opened,
  the body runs, the bracket is closed whether the body returned or raised, and the body's
  outcome is the outcome of the whole statement.
\<close>

definition with_self :: "(tracer \<Rightarrow> (pyexc + 'v) \<times> tracer) \<Rightarrow> tracer \<Rightarrow> (pyexc + 'v) \<times> tracer" where
  "with_self body tr = (case body (tracer_enter tr) of (r, tr') \<Rightarrow> (r, tracer_exit tr'))"

section \<open>The four wrappers\<close>

subsection \<open>Plain functions and coroutines\<close>

definition wrap_function :: "('a, 'v) callable \<Rightarrow> ('a, 'v) callable" where
  "wrap_function func = (\<lambda>args tr. with_self (func args) tr)"

text \<open>
  The coroutine wrapper awaits \<^verbatim>\<open>func(*args, **kwds)\<close> inside one bracket; the awaited
  coroutine is modelled by its final outcome.
\<close>

definition wrap_coroutine :: "('a, 'v) callable \<Rightarrow> ('a, 'v) callable" where
  "wrap_coroutine func = (\<lambda>args tr. with_self (func args) tr)"

subsection \<open>Classmethods\<close>

text \<open>
  A class reference is either the built-in type \<^verbatim>\<open>classmethod\<close> or a class of the
  program. A classmethod object \<^verbatim>\<open>func\<close> holds its underlying function
  \<^verbatim>\<open>func.__func__\<close>, whose first parameter is the class; \<^verbatim>\<open>func.__class__\<close> is the type
  of the object \<^verbatim>\<open>func\<close> itself, which is \<^verbatim>\<open>classmethod\<close>.
\<close>

datatype pyclass = Class_classmethod | UserClass string

type_synonym ('a, 'v) classmethod_obj = "pyclass \<Rightarrow> ('a, 'v) callable"

definition wrap_classmethod :: "('a, 'v) classmethod_obj \<Rightarrow> ('a, 'v) callable" where
  "wrap_classmethod under_func = (\<lambda>args tr. with_self (under_func Class_classmethod args) tr)"

text \<open>
  Attribute access through a class reference \<open>k\<close> (\<^verbatim>\<open>K.m\<close>): a classmethod attribute is
  bound to \<open>k\<close>, which becomes the first argument of the underlying function; a plain
  function attribute, which is what \<^verbatim>\<open>wrap_classmethod\<close> returns, is handed out as it is.
\<close>

definition classmethod_get :: "('a, 'v) classmethod_obj \<Rightarrow> pyclass \<Rightarrow> ('a, 'v) callable" where
  "classmethod_get under_func k = under_func k"

definition function_get :: "('a, 'v) callable \<Rightarrow> pyclass \<Rightarrow> ('a, 'v) callable" where
  "function_get wrapper k = wrapper"

subsection \<open>Generators\<close>

text \<open>
  A generator body is a step function on the state of its frame: resumed in state \<open>s\<close> with
  the value sent in (\<open>None\<close> for \<^verbatim>\<open>next\<close>), it runs to its next \<^verbatim>\<open>yield\<close>, returns, or
  raises. A generator object is a frame that has not started, a frame suspended at a
  \<^verbatim>\<open>yield\<close>, or a finished generator.
\<close>

datatype ('s, 'v) step = Yield 'v 's | Return | Raise pyexc

type_synonym ('s, 'i, 'v) genbody = "'s \<Rightarrow> 'i option \<Rightarrow> tracer \<Rightarrow> ('s, 'v) step \<times> tracer"

datatype 's genobj = Created 's | Suspended 's | Closed

text \<open>
  Running the frame once. Normal return raises \<^verbatim>\<open>StopIteration\<close> in the caller; a
  \<^verbatim>\<open>StopIteration\<close> raised inside the body reaches the caller as \<^verbatim>\<open>RuntimeError\<close>
  (PEP 479); any other exception passes through. In each of these cases the generator is
  finished.
\<close>

definition gen_run :: "('s, 'i, 'v) genbody \<Rightarrow> 's \<Rightarrow> 'i option \<Rightarrow> tracer \<Rightarrow> ((pyexc + 'v) \<times> 's genobj) \<times> tracer" where
  "gen_run body s inp tr =
     (case body s inp tr of
        (Yield v s', tr') \<Rightarrow> ((Inr v, Suspended s'), tr')
      | (Return, tr') \<Rightarrow> ((Inl StopIteration, Closed), tr')
      | (Raise e, tr') \<Rightarrow> ((Inl (if e = StopIteration then RuntimeError else e), Closed), tr'))"

text \<open>
  \<^verbatim>\<open>g.send(inp)\<close>, with \<^verbatim>\<open>next(g)\<close> being \<^verbatim>\<open>g.send(None)\<close>. A generator that has not
  started accepts only \<open>None\<close>; a finished one raises \<^verbatim>\<open>StopIteration\<close>.
\<close>

definition gen_send :: "('s, 'i, 'v) genbody \<Rightarrow> 's genobj \<Rightarrow> 'i option \<Rightarrow> tracer \<Rightarrow> ((pyexc + 'v) \<times> 's genobj) \<times> tracer" where
  "gen_send body g inp tr =
     (case g of
        Closed \<Rightarrow> ((Inl StopIteration, Closed), tr)
      | Created s \<Rightarrow>
          (case inp of
             Some x \<Rightarrow> ((Inl TypeError, Created s), tr)
           | None \<Rightarrow> gen_run body s None tr)
      | Suspended s \<Rightarrow> gen_run body s inp tr)"

text \<open>
  The frame of the wrapper generator of \<^verbatim>\<open>wrap_generator\<close>: before its first resumption
  it holds the arguments; afterwards it is suspended at one of its two \<^verbatim>\<open>yield\<close>
  expressions and holds the inner generator object \<^verbatim>\<open>g\<close>.
\<close>

datatype ('a, 's) wframe = AtEntry 'a | AtYield "'s genobj"

text \<open>
  One bracket around one resumption of the inner generator, as in
  \<^verbatim>\<open>with self: item = g.send(input_)\<close>.
\<close>

definition bracketed_send :: "('s, 'i, 'v) genbody \<Rightarrow> 's genobj \<Rightarrow> 'i option \<Rightarrow> tracer \<Rightarrow> ((pyexc + 'v) \<times> 's genobj) \<times> tracer" where
  "bracketed_send body g inp tr =
     (case gen_send body g inp (tracer_enter tr) of (rg, tr') \<Rightarrow> (rg, tracer_exit tr'))"

text \<open>
  The body of the wrapper generator. From its entry it creates \<^verbatim>\<open>g = func(*args, **kwds)\<close>
  and advances it with \<^verbatim>\<open>next(g)\<close>; from a \<^verbatim>\<open>yield\<close> it forwards the value it was sent.
  The item obtained is yielded; an exception of the inner generator is not caught, so it is
  raised inside the wrapper's own frame.
\<close>

definition wrapper_body :: "('a \<Rightarrow> 's) \<Rightarrow> ('s, 'i, 'v) genbody \<Rightarrow> (('a, 's) wframe, 'i, 'v) genbody" where
  "wrapper_body func body w sent tr =
     (case (case w of
              AtEntry args \<Rightarrow> bracketed_send body (Created (func args)) None tr
            | AtYield g \<Rightarrow> bracketed_send body g sent tr) of
        ((Inr item, g'), tr') \<Rightarrow> (Yield item (AtYield g'), tr')
      | ((Inl e, g'), tr') \<Rightarrow> (Raise e, tr'))"

text \<open>
  Calling a generator function runs none of its body: it returns a new generator object.
  \<^verbatim>\<open>wrap_generator\<close> returns a generator function whose objects run \<open>wrapper_body\<close>.
\<close>

definition call_generator :: "('a \<Rightarrow> 's) \<Rightarrow> 'a \<Rightarrow> 's genobj" where
  "call_generator func args = Created (func args)"

definition wrap_generator :: "('a \<Rightarrow> 's) \<Rightarrow> 'a \<Rightarrow> ('a, 's) wframe genobj" where
  "wrap_generator func args = Created (AtEntry args)"

text \<open>
  A consumer driving a generator object with a sequence of sent values: the outcomes of the
  resumptions in order, the object and the tracer after the last one.
\<close>

fun drive :: "('s, 'i, 'v) genbody \<Rightarrow> 's genobj \<Rightarrow> 'i option list \<Rightarrow> tracer \<Rightarrow> ((pyexc + 'v) list \<times> 's genobj) \<times> tracer" where
  "drive body g [] tr = (([], g), tr)"
| "drive body g (inp # inps) tr =
     (case gen_send body g inp tr of
        ((r, g'), tr') \<Rightarrow>
          (case drive body g' inps tr' of ((rs, g''), tr'') \<Rightarrow> ((r # rs, g''), tr'')))"

subsection \<open>Dispatch\<close>

text \<open>
  \<^verbatim>\<open>MyLineProfiler.__call__\<close> registers the callable with the tracer (which opens no
  bracket) and picks the wrapper by shape, testing classmethod, coroutine and generator
  in this order and falling back to the plain wrapper.
\<close>

datatype ('a, 'v, 's, 'i) pyfunc =
    ClassmethodF "('a, 'v) classmethod_obj"
  | CoroutineF "('a, 'v) callable"
  | GeneratorF "'a \<Rightarrow> 's" "('s, 'i, 'v) genbody"
  | PlainF "('a, 'v) callable"

datatype ('a, 'v, 's, 'i) wrapped =
    WrappedCall "('a, 'v) callable"
  | WrappedGen "'a \<Rightarrow> ('a, 's) wframe genobj" "(('a, 's) wframe, 'i, 'v) genbody"

fun profiler_call :: "('a, 'v, 's, 'i) pyfunc \<Rightarrow> ('a, 'v, 's, 'i) wrapped" where
  "profiler_call (ClassmethodF f) = WrappedCall (wrap_classmethod f)"
| "profiler_call (CoroutineF f) = WrappedCall (wrap_coroutine f)"
| "profiler_call (GeneratorF func body) = WrappedGen (wrap_generator func) (wrapper_body func body)"
| "profiler_call (PlainF f) = WrappedCall (wrap_function f)"

section \<open>The report renderer\<close>

subsection \<open>Floats, strings and format specifications\<close>

text \<open>
  Python's \<^verbatim>\<open>float\<close> and the rendering of a float by \<^verbatim>\<open>%g\<close> and by the format
  specifications \<^verbatim>\<open>6.3f\<close>, \<^verbatim>\<open>5.1f\<close> and \<^verbatim>\<open>' 5.1f'\<close> are built into the language;
  the renderer is modelled over any type \<open>'f\<close> of floats with these operations. Tick and
  hit counts are the tracer's machine integers, so converting one to a float never
  overflows. What the renderer's own control flow depends on is kept explicit: which
  floats are zero (\<^verbatim>\<open>not output_unit\<close>, and the divisor test of \<^verbatim>\<open>/\<close>).
\<close>

record 'f float_ops =
  float_of_int :: "int \<Rightarrow> 'f"
  fmul :: "'f \<Rightarrow> 'f \<Rightarrow> 'f"
  fdiv :: "'f \<Rightarrow> 'f \<Rightarrow> 'f"
  int_truediv :: "int \<Rightarrow> int \<Rightarrow> 'f"
  is_zero :: "'f \<Rightarrow> bool"
  fmt_g :: "'f \<Rightarrow> string"
  fmt_6_3f :: "'f \<Rightarrow> string"
  fmt_5_1f :: "'f \<Rightarrow> string"
  fmt_sp_5_1f :: "'f \<Rightarrow> string"

text \<open>\<^verbatim>\<open>a / b\<close> on floats, and \<^verbatim>\<open>a / n\<close> with a float \<open>a\<close> and an integer \<open>n\<close>.\<close>

definition py_truediv :: "'f float_ops \<Rightarrow> 'f \<Rightarrow> 'f \<Rightarrow> pyexc + 'f" where
  "py_truediv ops a b = (if is_zero ops b then Inl ZeroDivisionError else Inr (fdiv ops a b))"

definition py_truediv_int :: "'f float_ops \<Rightarrow> 'f \<Rightarrow> int \<Rightarrow> pyexc + 'f" where
  "py_truediv_int ops a n =
     (if n = 0 then Inl ZeroDivisionError else Inr (fdiv ops a (float_of_int ops n)))"

text \<open>\<^verbatim>\<open>str(n)\<close> for an integer.\<close>

fun str_of_nat :: "nat \<Rightarrow> string" where
  "str_of_nat n =
     (if n < 10 then [''0123456789'' ! n]
      else str_of_nat (n div 10) @ [''0123456789'' ! (n mod 10)])"

declare str_of_nat.simps [simp del]

definition str_of_int :: "int \<Rightarrow> string" where
  "str_of_int i = (if i < 0 then CHR ''-'' # str_of_nat (nat (- i)) else str_of_nat (nat i))"

text \<open>
  A width in a format specification pads with spaces: a string is left-aligned, a number
  is right-aligned. The specification \<^verbatim>\<open>-s\<close> asks for a sign on a string, which
  \<^verbatim>\<open>str.__format__\<close> rejects with \<^verbatim>\<open>ValueError\<close> (Sign not allowed in string format
  specifier).
\<close>

definition ljust :: "nat \<Rightarrow> string \<Rightarrow> string" where
  "ljust n s = s @ replicate (n - length s) CHR '' ''"

definition rjust :: "nat \<Rightarrow> string \<Rightarrow> string" where
  "rjust n s = replicate (n - length s) CHR '' '' @ s"

datatype str_spec = SpecWidth nat | SpecMinusS

fun format_str :: "str_spec \<Rightarrow> string \<Rightarrow> pyexc + string" where
  "format_str (SpecWidth n) s = Inr (ljust n s)"
| "format_str SpecMinusS s = Inl ValueError"

definition format_int :: "nat \<Rightarrow> int \<Rightarrow> string" where
  "format_int n i = rjust n (str_of_int i)"

text \<open>\<^verbatim>\<open>line.rstrip()\<close>: trailing whitespace is removed.\<close>

definition is_space :: "char \<Rightarrow> bool" where
  "is_space c = (c \<in> set [CHR '' '', CHR 0x09, CHR 0x0A, CHR 0x0B, CHR 0x0C, CHR 0x0D,
                            CHR 0x1C, CHR 0x1D, CHR 0x1E, CHR 0x1F])"

definition rstrip :: "string \<Rightarrow> string" where
  "rstrip s = rev (dropWhile is_space (rev s))"

text \<open>\<^verbatim>\<open>xs[i:]\<close>: a negative start counts from the end, and is clamped to the whole list.\<close>

definition slice_from :: "'a list \<Rightarrow> int \<Rightarrow> 'a list" where
  "slice_from xs i = (if 0 \<le> i then drop (nat i) xs else drop (nat (int (length xs) + i)) xs)"

subsection \<open>Statistics, files and the sink\<close>

text \<open>
  A LineStat is \<^verbatim>\<open>(lineno, nhits, time)\<close>; a target is keyed by
  \<^verbatim>\<open>(filename, start_lineno, func_name)\<close>; the statistics are the items of a dictionary
  (distinct keys). The file system maps the name of an existing file to its lines:
  \<^verbatim>\<open>os.path.exists\<close> is being in its domain and \<^verbatim>\<open>linecache.getlines\<close> gives the lines,
  or none for a name with no file. \<^verbatim>\<open>inspect.getblock\<close> is the external source-text
  collaborator, taken as a parameter (it tokenizes, and can raise). The sink is the
  list of strings written to it so far (a stream that is not given stands for standard
  output, a sink like any other); a procedure returns the sink it leaves behind and the
  exception it raised, if any.
\<close>

type_synonym linestat = "int \<times> int \<times> int"

type_synonym target = "string \<times> int \<times> string"

type_synonym stream = "string list"

type_synonym filesystem = "string \<Rightarrow> string list option"

definition path_exists :: "filesystem \<Rightarrow> string \<Rightarrow> bool" where
  "path_exists fs filename = (case fs filename of None \<Rightarrow> False | Some ls \<Rightarrow> True)"

definition getlines :: "filesystem \<Rightarrow> string \<Rightarrow> string list" where
  "getlines fs filename = (case fs filename of None \<Rightarrow> [] | Some ls \<Rightarrow> ls)"

definition total_time_of :: "linestat list \<Rightarrow> int" where
  "total_time_of timings = sum_list (map (\<lambda>(lineno, nhits, time). time) timings)"

subsection \<open>The per-line table\<close>

text \<open>
  The value stored in \<^verbatim>\<open>d[lineno]\<close> is \<^verbatim>\<open>(nhits, time, per_hit, percent)\<close> with
  \<^verbatim>\<open>nhits\<close> an integer and the other three already rendered; a line with no statistic
  takes \<^verbatim>\<open>empty\<close>, four empty strings.
\<close>

datatype hits_cell = HitsInt int | HitsBlank

type_synonym cells = "hits_cell \<times> string \<times> string \<times> string"

definition empty_cells :: cells where
  "empty_cells = (HitsBlank, [], [], [])"

definition format_hits :: "nat \<Rightarrow> hits_cell \<Rightarrow> string" where
  "format_hits n h = (case h of HitsInt i \<Rightarrow> format_int n i | HitsBlank \<Rightarrow> ljust n [])"

text \<open>One iteration of the loop of lines 113 to 119: the cells of one LineStat.\<close>

definition line_cells :: "'f float_ops \<Rightarrow> 'f \<Rightarrow> linestat list \<Rightarrow> linestat \<Rightarrow> pyexc + cells" where
  "line_cells ops scalar timings st =
     (case st of (lineno, nhits, time) \<Rightarrow>
        (let percent = (if total_time_of timings = 0 then []
                        else fmt_sp_5_1f ops (int_truediv ops (100 * time) (total_time_of timings)));
             time_cell = fmt_5_1f ops (fmul ops (float_of_int ops time) scalar)
         in case py_truediv_int ops (fmul ops (float_of_int ops time) scalar) nhits of
              Inl e \<Rightarrow> Inl e
            | Inr per_hit \<Rightarrow> Inr (HitsInt nhits, time_cell, fmt_5_1f ops per_hit, percent)))"

fun fill_d :: "'f float_ops \<Rightarrow> 'f \<Rightarrow> linestat list \<Rightarrow> linestat list \<Rightarrow> (int \<Rightarrow> cells option) \<Rightarrow> pyexc + (int \<Rightarrow> cells option)" where
  "fill_d ops scalar timings [] d = Inr d"
| "fill_d ops scalar timings (st # rest) d =
     (case line_cells ops scalar timings st of
        Inl e \<Rightarrow> Inl e
      | Inr c \<Rightarrow> fill_d ops scalar timings rest (d(fst st \<mapsto> c)))"

text \<open>The column header of line 121; its last field has the specification \<^verbatim>\<open>-s\<close>.\<close>

definition table_header :: "pyexc + string" where
  "table_header =
     (case format_str SpecMinusS ''Line Contents'' of
        Inl e \<Rightarrow> Inl e
      | Inr contents \<Rightarrow>
          Inr (ljust 6 ''Line #'' @ '' '' @ ljust 9 ''Hits'' @ '' '' @ ljust 12 ''Time'' @ '' ''
               @ ljust 8 ''Per Hit'' @ '' '' @ ljust 8 ''% Time'' @ ''  '' @ contents))"

text \<open>One row of the table (line 129), and the loop over the lines of the block.\<close>

definition row_text :: "(int \<Rightarrow> cells option) \<Rightarrow> int \<Rightarrow> string \<Rightarrow> pyexc + string" where
  "row_text d lineno line =
     (case (case d lineno of None \<Rightarrow> empty_cells | Some c \<Rightarrow> c) of
        (nhits, time, per_hit, percent) \<Rightarrow>
          (case format_str SpecMinusS (rstrip line) of
             Inl e \<Rightarrow> Inl e
           | Inr contents \<Rightarrow>
               Inr (format_int 6 lineno @ '' '' @ format_hits 9 nhits @ '' '' @ ljust 12 time @ '' ''
                    @ ljust 8 per_hit @ '' '' @ ljust 8 percent @ '' '' @ contents)))"

fun write_rows :: "(int \<Rightarrow> cells option) \<Rightarrow> (int \<times> string) list \<Rightarrow> stream \<Rightarrow> stream \<times> pyexc option" where
  "write_rows d [] stream = (stream, None)"
| "write_rows d ((lineno, line) # rest) stream =
     (case row_text d lineno line of
        Inl e \<Rightarrow> (stream, Some e)
      | Inr txt \<Rightarrow> write_rows d rest (stream @ [txt @ [CHR 0x0A]]))"

subsection \<open>One block: \<^verbatim>\<open>show_func\<close>\<close>

text \<open>
  Lines 99 to 102: \<^verbatim>\<open>if not output_unit: output_unit = unit\<close> replaces a missing and a
  zero \<^verbatim>\<open>output_unit\<close> alike; \<^verbatim>\<open>scalar = unit / output_unit\<close> raises when the divisor
  is zero.
\<close>

definition effective_output_unit :: "'f float_ops \<Rightarrow> 'f \<Rightarrow> 'f option \<Rightarrow> 'f" where
  "effective_output_unit ops unit output_unit =
     (case output_unit of None \<Rightarrow> unit | Some u \<Rightarrow> if is_zero ops u then unit else u)"

text \<open>The three lines written at the head of a block (lines 103 to 106).\<close>

definition block_head :: "'f float_ops \<Rightarrow> string \<Rightarrow> int \<Rightarrow> string \<Rightarrow> int \<Rightarrow> 'f \<Rightarrow> string list" where
  "block_head ops filename start_lineno func_name total_time scalar =
     [''Total time in '' @ func_name @ '': ''
        @ fmt_6_3f ops (fmul ops (float_of_int ops total_time) scalar) @ '' s'' @ [CHR 0x0A],
      ''File: '' @ filename @ [CHR 0x0A],
      ''Function: '' @ func_name @ '' at line '' @ str_of_int start_lineno @ [CHR 0x0A]]"

text \<open>
  Lines 108 to 132, after the head of the block: the lines of the definition, the
  dictionary \<^verbatim>\<open>d\<close>, the column header and its rule, the rows, and the closing empty line.
\<close>

definition block_table :: "'f float_ops \<Rightarrow> filesystem \<Rightarrow> (string list \<Rightarrow> pyexc + string list) \<Rightarrow> string \<Rightarrow> int \<Rightarrow> linestat list \<Rightarrow> 'f \<Rightarrow> stream \<Rightarrow> stream \<times> pyexc option" where
  "block_table ops fs getblock filename start_lineno timings scalar stream =
     (let all_lines = getlines fs filename in
      case getblock (slice_from all_lines (start_lineno - 1)) of
        Inl e \<Rightarrow> (stream, Some e)
      | Inr sublines \<Rightarrow>
          (case fill_d ops scalar timings timings Map.empty of
             Inl e \<Rightarrow> (stream, Some e)
           | Inr d \<Rightarrow>
               (case table_header of
                  Inl e \<Rightarrow> (stream, Some e)
                | Inr header \<Rightarrow>
                    (let stream1 = stream @ [[CHR 0x0A] @ header @ [CHR 0x0A]];
                         stream2 = stream1 @ [replicate (length header) CHR ''='' @ [CHR 0x0A]];
                         linenos = map (\<lambda>i. start_lineno + int i) [0..<length sublines]
                     in case write_rows d (zip linenos sublines) stream2 of
                          (stream3, Some e) \<Rightarrow> (stream3, Some e)
                        | (stream3, None) \<Rightarrow> (stream3 @ [[CHR 0x0A]], None)))))"

definition show_func :: "'f float_ops \<Rightarrow> filesystem \<Rightarrow> (string list \<Rightarrow> pyexc + string list) \<Rightarrow> string \<Rightarrow> int \<Rightarrow> string \<Rightarrow> linestat list \<Rightarrow> 'f \<Rightarrow> 'f option \<Rightarrow> stream \<Rightarrow> bool \<Rightarrow> stream \<times> pyexc option" where
  "show_func ops fs getblock filename start_lineno func_name timings unit output_unit stream stripzeros =
     (if \<not> path_exists fs filename
      then (stream @ [''Could not find file '' @ filename @ [CHR 0x0A]], None)
      else
        let total_time = total_time_of timings in
        if stripzeros \<and> total_time = 0 then (stream, None)
        else
          (case py_truediv ops unit (effective_output_unit ops unit output_unit) of
             Inl e \<Rightarrow> (stream, Some e)
           | Inr scalar \<Rightarrow>
               block_table ops fs getblock filename start_lineno timings scalar
                 (stream @ block_head ops filename start_lineno func_name total_time scalar)))"

subsection \<open>The whole report: \<^verbatim>\<open>show_text\<close>\<close>

text \<open>
  \<^verbatim>\<open>show_text\<close> is a function of the module, and it calls \<^verbatim>\<open>show_func\<close> by its bare
  name, which Python looks up among the module's globals when the call is reached. The
  names the module binds at its top level are listed here in the order of their binding;
  \<^verbatim>\<open>show_func\<close> is defined in the body of the class \<^verbatim>\<open>MyLineProfiler\<close>, so it is an
  attribute of the class and not among them (nor is it a built-in): the lookup raises
  \<^verbatim>\<open>NameError\<close>.
\<close>

definition module_globals :: "string list" where
  "module_globals =
     [''functools'', ''inspect'', ''linecache'', ''os'', ''sys'', ''LineProfiler'',
      ''is_coroutine'', ''is_generator'', ''is_classmethod'', ''MyLineProfiler'',
      ''show_text'', ''profile'', ''call_a'', ''call_b'', ''testfunc'', ''main'']"

definition class_MyLineProfiler :: "string list" where
  "class_MyLineProfiler =
     [''__call__'', ''wrap_classmethod'', ''wrap_coroutine'', ''wrap_generator'',
      ''wrap_function'', ''print_stats'', ''add_module'', ''show_func'']"

definition global_bound :: "string \<Rightarrow> bool" where
  "global_bound name = (name \<in> set module_globals)"

text \<open>
  The loop of lines 146 to 149 over the sorted items; an exception of one iteration ends
  the loop and the report.
\<close>

fun show_text_loop :: "'f float_ops \<Rightarrow> filesystem \<Rightarrow> (string list \<Rightarrow> pyexc + string list) \<Rightarrow> (target \<times> linestat list) list \<Rightarrow> 'f \<Rightarrow> 'f option \<Rightarrow> stream \<Rightarrow> bool \<Rightarrow> stream \<times> pyexc option" where
  "show_text_loop ops fs getblock [] unit output_unit stream stripzeros = (stream, None)"
| "show_text_loop ops fs getblock (((fn, lineno, name), timings) # rest) unit output_unit stream stripzeros =
     (if global_bound ''show_func''
      then (case show_func ops fs getblock fn lineno name timings unit output_unit stream stripzeros of
              (stream', Some e) \<Rightarrow> (stream', Some e)
            | (stream', None) \<Rightarrow> show_text_loop ops fs getblock rest unit output_unit stream' stripzeros)
      else (stream, Some NameError))"

definition show_text :: "'f float_ops \<Rightarrow> filesystem \<Rightarrow> (string list \<Rightarrow> pyexc + string list) \<Rightarrow> (target \<times> linestat list) list \<Rightarrow> 'f \<Rightarrow> 'f option \<Rightarrow> stream \<Rightarrow> bool \<Rightarrow> stream \<times> pyexc option" where
  "show_text ops fs getblock stats unit output_unit stream stripzeros =
     (let shown = (case output_unit of Some u \<Rightarrow> u | None \<Rightarrow> unit);
          stream1 = stream @ [''Timer unit: '' @ fmt_g ops shown @ '' s'' @ [CHR 0x0A, CHR 0x0A]]
      in show_text_loop ops fs getblock (sort_key fst stats) unit output_unit stream1 stripzeros)"

text \<open>
  \<^verbatim>\<open>MyLineProfiler.print_stats\<close>, the report invocation surface: it reads the tracer's
  statistics and unit and hands them to \<^verbatim>\<open>show_text\<close>.
\<close>

definition print_stats :: "'f float_ops \<Rightarrow> filesystem \<Rightarrow> (string list \<Rightarrow> pyexc + string list) \<Rightarrow> (target \<times> linestat list) list \<Rightarrow> 'f \<Rightarrow> stream \<Rightarrow> 'f option \<Rightarrow> bool \<Rightarrow> stream \<times> pyexc option" where
  "print_stats ops fs getblock timings unit stream output_unit stripzeros =
     show_text ops fs getblock timings unit output_unit stream stripzeros"

subsection \<open>A concrete float type\<close>

text \<open>
  Exact rational arithmetic, printing the integer part of a number: an instance of the
  float operations for the places where a concrete one is needed.
\<close>

definition exact_ops :: "rat float_ops" where
  "exact_ops =
     \<lparr>float_of_int = of_int, fmul = (\<lambda>a b. a * b), fdiv = (\<lambda>a b. a / b),
      int_truediv = (\<lambda>a b. of_int a / of_int b), is_zero = (\<lambda>a. a = 0),
      fmt_g = (\<lambda>a. str_of_int \<lfloor>a\<rfloor>), fmt_6_3f = (\<lambda>a. str_of_int \<lfloor>a\<rfloor>),
      fmt_5_1f = (\<lambda>a. str_of_int \<lfloor>a\<rfloor>), fmt_sp_5_1f = (\<lambda>a. str_of_int \<lfloor>a\<rfloor>)\<rparr>"

text \<open>A file system holding the one source file \<^verbatim>\<open>a.py\<close>, for concrete runs.\<close>

definition demo_fs :: filesystem where
  "demo_fs = (\<lambda>name. if name = ''a.py'' then Some [''def f():'', ''    return 1''] else None)"

section \<open>Properties of the wrappers\<close>

subsection \<open>Brackets\<close>

lemma tracer_enter_count: "enable_count (tracer_enter t) = Suc (enable_count t)"
  by (simp add: tracer_enter_def)

lemma tracer_exit_count_Suc: "enable_count t = Suc n \<Longrightarrow> enable_count (tracer_exit t) = n"
  by (simp add: tracer_exit_def)

lemma with_self_outcome: "fst (with_self body tr) = fst (body (tracer_enter tr))"
  by (simp add: with_self_def split: prod.splits)

lemma with_self_tracer: "snd (with_self body tr) = tracer_exit (snd (body (tracer_enter tr)))"
  by (simp add: with_self_def split: prod.splits)

lemma with_self_balanced:
  assumes "\<And>t. enable_count (snd (body t)) = enable_count t"
  shows "enable_count (snd (with_self body tr)) = enable_count tr"
  by (simp add: with_self_tracer assms tracer_exit_count_Suc tracer_enter_count)

lemma gen_run_tracer: "snd (gen_run body s inp tr) = snd (body s inp tr)"
  by (auto simp: gen_run_def split: prod.splits step.splits)

lemma gen_send_balanced:
  assumes "\<And>s i t. enable_count (snd (body s i t)) = enable_count t"
  shows "enable_count (snd (gen_send body g inp tr)) = enable_count tr"
  by (auto simp: gen_send_def gen_run_tracer assms split: genobj.splits option.splits)

lemma bracketed_send_outcome:
  "fst (bracketed_send body g inp tr) = fst (gen_send body g inp (tracer_enter tr))"
  by (simp add: bracketed_send_def split: prod.splits)

lemma bracketed_send_tracer:
  "snd (bracketed_send body g inp tr) = tracer_exit (snd (gen_send body g inp (tracer_enter tr)))"
  by (simp add: bracketed_send_def split: prod.splits)

lemma bracketed_send_balanced:
  assumes "\<And>s i t. enable_count (snd (body s i t)) = enable_count t"
  shows "enable_count (snd (bracketed_send body g inp tr)) = enable_count tr"
  by (simp add: bracketed_send_tracer gen_send_balanced [OF assms] tracer_exit_count_Suc
      tracer_enter_count)

lemma wrapper_body_tracer:
  "snd (wrapper_body func body w sent tr) =
     (case w of AtEntry args \<Rightarrow> snd (bracketed_send body (Created (func args)) None tr)
              | AtYield g \<Rightarrow> snd (bracketed_send body g sent tr))"
  by (auto simp: wrapper_body_def split: wframe.splits prod.splits sum.splits)

lemma wrapper_body_balanced:
  assumes "\<And>s i t. enable_count (snd (body s i t)) = enable_count t"
  shows "enable_count (snd (wrapper_body func body w sent tr)) = enable_count tr"
  by (simp add: wrapper_body_tracer bracketed_send_balanced [OF assms] split: wframe.splits)

text \<open>
  Claim C6. Every wrapper closes its bracket on every exit path. Whatever the wrapped
  callable does (return, raise, and for a generator yield, exhaust or raise), the tracer
  the wrapper leaves behind is the one the callable left inside the bracket with
  \<^verbatim>\<open>__exit__\<close> applied to it last, so the bracket is closed before the result or the
  exception reaches the caller; this holds for the plain, coroutine and classmethod
  wrappers and for the first and every later resumption of the generator wrapper. When
  the wrapped callable itself leaves the count of open brackets as it found it, so does
  every wrapped invocation and every resumption of a wrapped generator in any state: no
  bracket stays open.
\<close>

theorem wrappers_close_bracket:
  assumes f: "\<And>a t. enable_count (snd (f a t)) = enable_count t"
    and cm: "\<And>k a t. enable_count (snd (cm k a t)) = enable_count t"
    and body: "\<And>s i t. enable_count (snd (body s i t)) = enable_count t"
  shows "snd (wrap_function f args tr) = tracer_exit (snd (f args (tracer_enter tr)))
       \<and> snd (wrap_coroutine f args tr) = tracer_exit (snd (f args (tracer_enter tr)))
       \<and> snd (wrap_classmethod cm args tr)
           = tracer_exit (snd (cm Class_classmethod args (tracer_enter tr)))
       \<and> snd (gen_send (wrapper_body func body) (wrap_generator func args) None tr)
           = tracer_exit (snd (gen_send body (call_generator func args) None (tracer_enter tr)))
       \<and> snd (gen_send (wrapper_body func body) (Suspended (AtYield g)) inp tr)
           = tracer_exit (snd (gen_send body g inp (tracer_enter tr)))
       \<and> enable_count (snd (wrap_function f args tr)) = enable_count tr
       \<and> enable_count (snd (wrap_coroutine f args tr)) = enable_count tr
       \<and> enable_count (snd (wrap_classmethod cm args tr)) = enable_count tr
       \<and> enable_count (snd (gen_send (wrapper_body func body) w inp tr)) = enable_count tr"
proof -
  have 1: "snd (wrap_function f args tr) = tracer_exit (snd (f args (tracer_enter tr)))"
    by (simp add: wrap_function_def with_self_tracer)
  have 2: "snd (wrap_coroutine f args tr) = tracer_exit (snd (f args (tracer_enter tr)))"
    by (simp add: wrap_coroutine_def with_self_tracer)
  have 3: "snd (wrap_classmethod cm args tr)
             = tracer_exit (snd (cm Class_classmethod args (tracer_enter tr)))"
    by (simp add: wrap_classmethod_def with_self_tracer)
  have 4: "snd (gen_send (wrapper_body func body) (wrap_generator func args) None tr)
           = tracer_exit (snd (gen_send body (call_generator func args) None (tracer_enter tr)))"
    by (simp add: wrap_generator_def call_generator_def gen_send_def [of "wrapper_body func body"]
        gen_run_tracer wrapper_body_tracer bracketed_send_tracer)
  have 5: "snd (gen_send (wrapper_body func body) (Suspended (AtYield g)) inp tr)
           = tracer_exit (snd (gen_send body g inp (tracer_enter tr)))"
    by (simp add: gen_send_def [of "wrapper_body func body"]
        gen_run_tracer wrapper_body_tracer bracketed_send_tracer)
  have 6: "enable_count (snd (wrap_function f args tr)) = enable_count tr"
    unfolding wrap_function_def by (rule with_self_balanced) (rule f)
  have 7: "enable_count (snd (wrap_coroutine f args tr)) = enable_count tr"
    unfolding wrap_coroutine_def by (rule with_self_balanced) (rule f)
  have 8: "enable_count (snd (wrap_classmethod cm args tr)) = enable_count tr"
    unfolding wrap_classmethod_def by (rule with_self_balanced) (rule cm)
  have 9: "enable_count (snd (gen_send (wrapper_body func body) w inp tr)) = enable_count tr"
    by (rule gen_send_balanced) (rule wrapper_body_balanced [OF body])
  from 1 2 3 4 5 6 7 8 9 show ?thesis by blast
qed

text \<open>
  A plain function and a generator that raise at once: after the wrapped call and after
  the first resumption the log holds one closed bracket and the count is back at zero.
\<close>

theorem wrappers_close_bracket_witness:
  "snd (wrap_function (\<lambda>(a::nat) t. (Inl (UserError ''boom'') :: pyexc + nat, t)) 1
          \<lparr>enable_count = 0, events = []\<rparr>)
      = \<lparr>enable_count = 0, events = [Activate, Deactivate]\<rparr>
   \<and> snd (gen_send (wrapper_body (\<lambda>a::nat. a)
               (\<lambda>(s::nat) (i::nat option) t. (Raise (UserError ''boom'') :: (nat, nat) step, t)))
            (Created (AtEntry 1)) None \<lparr>enable_count = 0, events = []\<rparr>)
      = \<lparr>enable_count = 0, events = [Activate, Deactivate]\<rparr>"
  using wrappers_close_bracket [of "\<lambda>(a::nat) t. (Inl (UserError ''boom'') :: pyexc + nat, t)"
      "\<lambda>k (a::nat) t. (Inl (UserError ''boom'') :: pyexc + nat, t)"
      "\<lambda>(s::nat) (i::nat option) t. (Raise (UserError ''boom'') :: (nat, nat) step, t)"
      1 "\<lparr>enable_count = 0, events = []\<rparr>" "\<lambda>a::nat. a" "Closed" None "Created (AtEntry 1)"]
  by (simp add: tracer_enter_def tracer_exit_def wrap_generator_def call_generator_def
      gen_send_def gen_run_def)

subsection \<open>What a wrapped generator hands to its consumer\<close>

text \<open>
  One resumption of a started wrapper, by the outcome of the inner resumption: an item is
  yielded as it is, an exception other than exhaustion passes through, and exhaustion
  of the inner generator comes out as \<^verbatim>\<open>RuntimeError\<close>.
\<close>

lemma wrapper_send_cases:
  "fst (gen_send (wrapper_body func body) (Suspended (AtYield g)) inp tr) =
     (case fst (gen_send body g inp (tracer_enter tr)) of
        (Inr item, g') \<Rightarrow> (Inr item, Suspended (AtYield g'))
      | (Inl e, g') \<Rightarrow> (Inl (if e = StopIteration then RuntimeError else e), Closed))"
  by (auto simp: gen_send_def [of "wrapper_body func body"] gen_run_def wrapper_body_def
      bracketed_send_def split: prod.splits sum.splits)

text \<open>
  Claim C4, at two generators: one that returns at once, one that yields 7 and then
  returns. Driven by \<^verbatim>\<open>next\<close>, the unwrapped generators end with \<^verbatim>\<open>StopIteration\<close>;
  the wrapped ones yield the same items and then end with \<^verbatim>\<open>RuntimeError\<close>, also on
  the very first resumption: the exhaustion of the inner generator does not reach the
  consumer unchanged.
\<close>

theorem wrapped_generator_exhaustion_is_RuntimeError:
  "fst (drive (\<lambda>(s::nat) (i::nat option) t. (Return :: (nat, nat) step, t))
          (call_generator (\<lambda>a::unit. 0) ()) [None] tr)
      = ([Inl StopIteration], Closed)
   \<and> fst (drive (wrapper_body (\<lambda>a::unit. 0) (\<lambda>(s::nat) (i::nat option) t. (Return :: (nat, nat) step, t)))
            (wrap_generator (\<lambda>a::unit. 0) ()) [None] tr)
      = ([Inl RuntimeError], Closed)
   \<and> fst (drive (\<lambda>(s::nat) (i::nat option) t. ((if s = 0 then Yield (7::nat) 1 else Return), t))
            (call_generator (\<lambda>a::unit. 0) ()) [None, None] tr)
      = ([Inr 7, Inl StopIteration], Closed)
   \<and> fst (drive (wrapper_body (\<lambda>a::unit. 0)
                   (\<lambda>(s::nat) (i::nat option) t. ((if s = 0 then Yield (7::nat) 1 else Return), t)))
            (wrap_generator (\<lambda>a::unit. 0) ()) [None, None] tr)
      = ([Inr 7, Inl RuntimeError], Closed)"
  by (simp add: call_generator_def wrap_generator_def gen_send_def gen_run_def wrapper_body_def
      bracketed_send_def)

subsection \<open>The class a wrapped classmethod receives\<close>

text \<open>
  Claim C3. Reached through any class reference \<open>k\<close>, the wrapper of a classmethod calls
  the underlying function with the built-in type \<^verbatim>\<open>classmethod\<close> as its first argument.
  For a classmethod that returns the class it was given, called through the subclass
  \<^verbatim>\<open>Sub\<close>: unwrapped it returns \<^verbatim>\<open>Sub\<close>, wrapped it returns \<^verbatim>\<open>classmethod\<close>.
\<close>

theorem classmethod_wrapper_passes_classmethod_type:
  "function_get (wrap_classmethod under_func) k args tr
      = with_self (under_func Class_classmethod args) tr
   \<and> fst (function_get (wrap_classmethod (\<lambda>cls (a::unit) t. (Inr cls, t))) (UserClass ''Sub'') () tr)
      = Inr Class_classmethod
   \<and> fst (classmethod_get (\<lambda>cls (a::unit) t. (Inr cls, t)) (UserClass ''Sub'') () tr)
      = Inr (UserClass ''Sub'')"
  by (simp add: function_get_def wrap_classmethod_def classmethod_get_def with_self_def)

subsection \<open>Results of wrapped and unwrapped calls\<close>

text \<open>The plain and the coroutine wrapper hand on the outcome of the call they bracket.\<close>

lemma plain_and_coroutine_outcome:
  "fst (wrap_function f args tr) = fst (f args (tracer_enter tr))
   \<and> fst (wrap_coroutine f args tr) = fst (f args (tracer_enter tr))"
  by (simp add: wrap_function_def wrap_coroutine_def with_self_outcome)

text \<open>
  Claim C5, at a classmethod that returns the name of its class (and raises for the type
  \<^verbatim>\<open>classmethod\<close>, which has none) and at a generator that returns at once. The
  wrapper chosen by \<^verbatim>\<open>__call__\<close> for the classmethod raises where the classmethod,
  called through the class \<^verbatim>\<open>A\<close>, returns \<^verbatim>\<open>A\<close>; the wrapper chosen for the generator
  raises \<^verbatim>\<open>RuntimeError\<close> on \<^verbatim>\<open>next\<close> where the generator raises \<^verbatim>\<open>StopIteration\<close>.
\<close>

theorem wrapped_result_differs_from_unwrapped:
  "profiler_call (ClassmethodF (\<lambda>cls (a::unit) t.
        ((case cls of UserClass n \<Rightarrow> Inr n | Class_classmethod \<Rightarrow> Inl TypeError), t))
      :: (unit, string, nat, nat) pyfunc)
     = WrappedCall (wrap_classmethod (\<lambda>cls a t.
        ((case cls of UserClass n \<Rightarrow> Inr n | Class_classmethod \<Rightarrow> Inl TypeError), t)))
   \<and> fst (classmethod_get (\<lambda>cls (a::unit) t.
        ((case cls of UserClass n \<Rightarrow> Inr n | Class_classmethod \<Rightarrow> Inl TypeError), t))
        (UserClass ''A'') () tr) = Inr ''A''
   \<and> fst (function_get (wrap_classmethod (\<lambda>cls (a::unit) t.
        ((case cls of UserClass n \<Rightarrow> Inr n | Class_classmethod \<Rightarrow> Inl TypeError), t)))
        (UserClass ''A'') () tr) = Inl TypeError
   \<and> profiler_call (GeneratorF (\<lambda>a::unit. 0::nat) (\<lambda>s (i::nat option) t. (Return :: (nat, nat) step, t))
      :: (unit, nat, nat, nat) pyfunc)
     = WrappedGen (wrap_generator (\<lambda>a. 0)) (wrapper_body (\<lambda>a. 0) (\<lambda>s i t. (Return, t)))
   \<and> fst (fst (gen_send (\<lambda>(s::nat) (i::nat option) t. (Return :: (nat, nat) step, t))
            (call_generator (\<lambda>a::unit. 0) ()) None tr)) = Inl StopIteration
   \<and> fst (fst (gen_send (wrapper_body (\<lambda>a::unit. 0) (\<lambda>(s::nat) (i::nat option) t. (Return :: (nat, nat) step, t)))
            (wrap_generator (\<lambda>a::unit. 0) ()) None tr)) = Inl RuntimeError"
  by (simp add: classmethod_get_def function_get_def wrap_classmethod_def with_self_def
      call_generator_def wrap_generator_def gen_send_def gen_run_def wrapper_body_def
      bracketed_send_def)

section \<open>Properties of the renderer\<close>

subsection \<open>The table\<close>

lemma table_header_raises: "table_header = Inl ValueError"
  by (simp add: table_header_def)

lemma line_cells_zero_hits:
  "line_cells ops scalar timings (lineno, 0, time) = Inl ZeroDivisionError"
  by (simp add: line_cells_def py_truediv_int_def Let_def)

lemma line_cells_raises_only_ZeroDivisionError:
  "line_cells ops scalar timings st = Inl e \<Longrightarrow> e = ZeroDivisionError"
  by (auto simp: line_cells_def py_truediv_int_def Let_def split: prod.splits if_splits)

lemma fill_d_zero_hits:
  "(lineno, 0, time) \<in> set sts \<Longrightarrow> fill_d ops scalar timings sts d = Inl ZeroDivisionError"
proof (induction sts arbitrary: d)
  case Nil
  then show ?case by simp
next
  case (Cons st sts)
  show ?case
  proof (cases "line_cells ops scalar timings st")
    case (Inl e)
    then show ?thesis
      by (simp add: line_cells_raises_only_ZeroDivisionError [OF Inl])
  next
    case (Inr c)
    with Cons.prems have "st \<noteq> (lineno, 0, time)"
      by (auto simp: line_cells_zero_hits)
    with Cons.prems have "(lineno, 0, time) \<in> set sts" by auto
    then show ?thesis using Inr Cons.IH by simp
  qed
qed

lemma fill_d_no_zero_hits:
  "\<forall>st \<in> set sts. fst (snd st) \<noteq> 0 \<Longrightarrow> \<exists>d'. fill_d ops scalar timings sts d = Inr d'"
  by (induction sts arbitrary: d)
     (auto simp: line_cells_def py_truediv_int_def Let_def split: prod.splits)

text \<open>
  The part of a block after its head always ends in an exception and writes nothing: when
  neither the block isolation nor a cell raises, the column header does.
\<close>

lemma block_table_raises:
  "\<exists>e. block_table ops fs getblock filename start_lineno timings scalar stream = (stream, Some e)"
  by (auto simp: block_table_def Let_def table_header_raises split: sum.splits)

lemma block_table_zero_hits:
  assumes "getblock (slice_from (getlines fs filename) (start_lineno - 1)) = Inr sublines"
    and "(lineno, 0, time) \<in> set timings"
  shows "block_table ops fs getblock filename start_lineno timings scalar stream
           = (stream, Some ZeroDivisionError)"
  using assms by (simp add: block_table_def Let_def fill_d_zero_hits)

lemma show_func_exists:
  assumes "path_exists fs filename"
  shows "show_func ops fs getblock filename start_lineno func_name timings unit output_unit stream stripzeros =
     (if stripzeros \<and> total_time_of timings = 0 then (stream, None)
      else if is_zero ops (effective_output_unit ops unit output_unit)
      then (stream, Some ZeroDivisionError)
      else block_table ops fs getblock filename start_lineno timings
             (fdiv ops unit (effective_output_unit ops unit output_unit))
             (stream @ block_head ops filename start_lineno func_name (total_time_of timings)
                (fdiv ops unit (effective_output_unit ops unit output_unit))))"
  using assms by (simp add: show_func_def py_truediv_def Let_def)

text \<open>
  The hit count and the percentage of a line do not depend on the scale factor: only the
  Time and Per Hit cells are computed from it.
\<close>

lemma line_cells_unit_independent:
  assumes "line_cells ops scalar1 timings st = Inr (hits1, time1, per_hit1, percent1)"
    and "line_cells ops scalar2 timings st = Inr (hits2, time2, per_hit2, percent2)"
  shows "hits1 = hits2 \<and> percent1 = percent2"
  using assms
  by (auto simp: line_cells_def py_truediv_int_def Let_def split: prod.splits if_splits)

text \<open>
  With nothing in the way (the file is there, the block is not stripped, the unit is not
  zero, the block isolation succeeds, every line was hit), \<^verbatim>\<open>show_func\<close> writes the
  head of the block and raises \<^verbatim>\<open>ValueError\<close> at the column header.
\<close>

lemma show_func_best_case_raises_ValueError:
  assumes "path_exists fs filename"
    and "\<not> (stripzeros \<and> total_time_of timings = 0)"
    and "\<not> is_zero ops (effective_output_unit ops unit output_unit)"
    and "getblock (slice_from (getlines fs filename) (start_lineno - 1)) = Inr sublines"
    and "\<forall>st \<in> set timings. fst (snd st) \<noteq> 0"
  shows "show_func ops fs getblock filename start_lineno func_name timings unit output_unit stream stripzeros
           = (stream @ block_head ops filename start_lineno func_name (total_time_of timings)
                 (fdiv ops unit (effective_output_unit ops unit output_unit)),
              Some ValueError)"
proof -
  from fill_d_no_zero_hits [OF assms(5), of ops
      "fdiv ops unit (effective_output_unit ops unit output_unit)" timings Map.empty]
  obtain d' where "fill_d ops (fdiv ops unit (effective_output_unit ops unit output_unit))
      timings timings Map.empty = Inr d'"
    by (rule exE)
  then show ?thesis using assms(2,3,4)
    by (simp add: show_func_exists [OF assms(1)] block_table_def table_header_raises)
qed

text \<open>
  Claim C2. A LineStat with a hit count of zero makes \<^verbatim>\<open>show_func\<close> raise
  \<^verbatim>\<open>ZeroDivisionError\<close>: for a target whose file exists and whose block is neither
  stripped nor stopped earlier (the unit is not zero, the block isolation succeeds), the
  head of the block is written and the per-hit division by the zero hit count ends the
  call. No blank cell is produced.
\<close>

theorem zero_hits_raise_ZeroDivisionError:
  assumes "path_exists fs filename"
    and "\<not> (stripzeros \<and> total_time_of timings = 0)"
    and "\<not> is_zero ops (effective_output_unit ops unit output_unit)"
    and "getblock (slice_from (getlines fs filename) (start_lineno - 1)) = Inr sublines"
    and "(lineno, 0, time) \<in> set timings"
  shows "show_func ops fs getblock filename start_lineno func_name timings unit output_unit stream stripzeros
           = (stream @ block_head ops filename start_lineno func_name (total_time_of timings)
                 (fdiv ops unit (effective_output_unit ops unit output_unit)),
              Some ZeroDivisionError)"
  using assms(2,3)
    block_table_zero_hits [of getblock fs filename start_lineno sublines lineno time timings,
      OF assms(4,5)]
  by (simp add: show_func_exists [OF assms(1)])

text \<open>The statistics \<^verbatim>\<open>[(1, 1, 5), (2, 0, 0)]\<close> of a function in \<^verbatim>\<open>a.py\<close>.\<close>

theorem zero_hits_raise_ZeroDivisionError_witness:
  "show_func exact_ops demo_fs Inr ''a.py'' 1 ''f'' [(1, 1, 5), (2, 0, 0)] (1 / 1000) None [] False
     = ([''Total time in f: 5 s'' @ [CHR 0x0A], ''File: a.py'' @ [CHR 0x0A],
         ''Function: f at line 1'' @ [CHR 0x0A]], Some ZeroDivisionError)"
  using zero_hits_raise_ZeroDivisionError
      [of demo_fs "''a.py''" False "[(1, 1, 5), (2, 0, 0)]"
          exact_ops "1 / 1000" None Inr 1 "[''def f():'', ''    return 1'']" 2 0 "''f''" "[]"]
  by (simp add: demo_fs_def path_exists_def getlines_def total_time_of_def
      effective_output_unit_def exact_ops_def block_head_def str_of_int_def str_of_nat.simps
      slice_from_def)

subsection \<open>The gates at the head of \<^verbatim>\<open>show_func\<close>\<close>

text \<open>
  Claim C10. The check for the source file comes first: for a target whose file cannot be
  located, \<^verbatim>\<open>show_func\<close> writes the one line naming the file and returns, whatever
  \<^verbatim>\<open>stripzeros\<close> and the statistics are, so also when \<^verbatim>\<open>stripzeros\<close> is set and the
  total time is zero.
\<close>

theorem missing_file_diagnostic_before_stripzeros:
  assumes "\<not> path_exists fs filename"
  shows "show_func ops fs getblock filename start_lineno func_name timings unit output_unit stream stripzeros
           = (stream @ [''Could not find file '' @ filename @ [CHR 0x0A]], None)"
  using assms by (simp add: show_func_def)

text \<open>A missing file, \<^verbatim>\<open>stripzeros\<close> set and a total time of zero.\<close>

theorem missing_file_diagnostic_before_stripzeros_witness:
  "total_time_of [(3, 0, 0)] = 0
   \<and> show_func exact_ops (\<lambda>name. None) Inr ''gone.py'' 3 ''f'' [(3, 0, 0)] (1 / 1000000) None [] True
       = ([''Could not find file gone.py'' @ [CHR 0x0A]], None)"
  using missing_file_diagnostic_before_stripzeros
    [of "\<lambda>name. None" "''gone.py''" exact_ops Inr 3 "''f''" "[(3, 0, 0)]" "1 / 1000000" None "[]" True]
  by (simp add: total_time_of_def path_exists_def)



subsection \<open>Blocks and the whole report\<close>

text \<open>
  Claim C8. For a target whose source file exists and whose block is not stripped,
  \<^verbatim>\<open>show_func\<close> never returns normally: it raises, having written nothing or only the
  head of the block, and no row of the table. A full block is rendered for no target, so
  not for the targets beside one whose file is missing.
\<close>

theorem show_func_never_completes_a_block:
  assumes "path_exists fs filename"
    and "\<not> (stripzeros \<and> total_time_of timings = 0)"
  shows "\<exists>e. show_func ops fs getblock filename start_lineno func_name timings unit output_unit stream stripzeros
                = (stream, Some e)
            \<or> show_func ops fs getblock filename start_lineno func_name timings unit output_unit stream stripzeros
                = (stream @ block_head ops filename start_lineno func_name (total_time_of timings)
                     (fdiv ops unit (effective_output_unit ops unit output_unit)), Some e)"
proof -
  let ?scalar = "fdiv ops unit (effective_output_unit ops unit output_unit)"
  let ?head = "stream @ block_head ops filename start_lineno func_name (total_time_of timings) ?scalar"
  from block_table_raises [of ops fs getblock filename start_lineno timings ?scalar ?head]
  obtain e where e: "block_table ops fs getblock filename start_lineno timings ?scalar ?head = (?head, Some e)"
    by (rule exE)
  from assms(2) show ?thesis
    by (auto simp: show_func_exists [OF assms(1)] e)
qed

text \<open>
  The target \<^verbatim>\<open>f\<close> of \<^verbatim>\<open>a.py\<close>, every line hit, written after the diagnostic of a
  target whose file is missing: the head of its block, then \<^verbatim>\<open>ValueError\<close>.
\<close>

theorem show_func_never_completes_a_block_witness:
  "show_func exact_ops demo_fs Inr ''gone.py'' 1 ''g'' [(1, 1, 4)] 1 None [] False
     = ([''Could not find file gone.py'' @ [CHR 0x0A]], None)
   \<and> show_func exact_ops demo_fs Inr ''a.py'' 1 ''f'' [(1, 1, 5), (2, 1, 7)] 1 None
        [''Could not find file gone.py'' @ [CHR 0x0A]] False
     = ([''Could not find file gone.py'' @ [CHR 0x0A],
         ''Total time in f: 12 s'' @ [CHR 0x0A], ''File: a.py'' @ [CHR 0x0A],
         ''Function: f at line 1'' @ [CHR 0x0A]], Some ValueError)"
  using show_func_never_completes_a_block
      [of demo_fs "''a.py''" False "[(1, 1, 5), (2, 1, 7)]" exact_ops Inr 1 "''f''" 1 None
          "[''Could not find file gone.py'' @ [CHR 0x0A]]"]
  by (simp add: show_func_def block_table_def table_header_def line_cells_def py_truediv_def
      py_truediv_int_def demo_fs_def path_exists_def getlines_def total_time_of_def
      effective_output_unit_def exact_ops_def block_head_def str_of_int_def str_of_nat.simps
      slice_from_def Let_def)

lemma show_func_unbound: "\<not> global_bound ''show_func''"
  by (simp add: global_bound_def module_globals_def)

lemma show_func_is_class_attribute: "''show_func'' \<in> set class_MyLineProfiler"
  by (simp add: class_MyLineProfiler_def)

lemma show_text_loop_nonempty:
  "items \<noteq> [] \<Longrightarrow>
   show_text_loop ops fs getblock items unit output_unit stream stripzeros = (stream, Some NameError)"
  by (cases items) (auto simp: show_func_unbound)

text \<open>
  Claim C1. For statistics that are not empty, the report call writes the line with the
  timer unit and then raises \<^verbatim>\<open>NameError\<close>, at the first call of \<^verbatim>\<open>show_func\<close>: it
  does not complete, and no block follows the unit header. This holds whether or not the
  source files exist.
\<close>

theorem report_of_nonempty_statistics_raises_NameError:
  assumes "stats \<noteq> []"
  shows "print_stats ops fs getblock stats unit stream output_unit stripzeros
           = (stream @ [''Timer unit: '' @ fmt_g ops (case output_unit of Some u \<Rightarrow> u | None \<Rightarrow> unit)
                          @ '' s'' @ [CHR 0x0A, CHR 0x0A]], Some NameError)
       \<and> show_text ops fs getblock stats unit output_unit stream stripzeros
           = (stream @ [''Timer unit: '' @ fmt_g ops (case output_unit of Some u \<Rightarrow> u | None \<Rightarrow> unit)
                          @ '' s'' @ [CHR 0x0A, CHR 0x0A]], Some NameError)"
proof -
  from assms have "sort_key fst stats \<noteq> []"
    by (metis length_sort length_0_conv)
  then show ?thesis
    by (simp add: print_stats_def show_text_def Let_def show_text_loop_nonempty)
qed

text \<open>One target, whose source file exists.\<close>

theorem report_of_nonempty_statistics_raises_NameError_witness:
  "path_exists demo_fs ''a.py''
   \<and> print_stats exact_ops demo_fs Inr [((''a.py'', 1, ''f''), [(1, 1, 5), (2, 1, 7)])] 1 [] None False
     = ([''Timer unit: 1 s'' @ [CHR 0x0A, CHR 0x0A]], Some NameError)"
  using report_of_nonempty_statistics_raises_NameError
      [of "[((''a.py'', 1, ''f''), [(1, 1, 5), (2, 1, 7)])]" exact_ops demo_fs Inr 1 "[]" None False]
  by (simp add: demo_fs_def path_exists_def exact_ops_def str_of_int_def str_of_nat.simps)

end
